theory Spec2Isabelle
  imports Complex_Main "HOL-Library.Multiset" "HOL-Library.Sublist"
begin

section \<open>Report aggregation (ReportsPage)\<close>

text \<open>
  JavaScript numbers are modelled as exact rationals: every finite double is a rational,
  and the model idealises the arithmetic as exact (no rounding of sums, products and
  quotients; no NaN, no infinities). The inputs are typed as the page declares them:
  \<^verbatim>\<open>interface MonthlyData { monthly: [string, number][]; byCat: { k: string; v: number }[]; forecast?: number }\<close>.
\<close>

record Cat =
  k :: string
  v :: rat

record MonthlyData =
  monthly :: "(string \<times> rat) list"
  byCat :: "Cat list"
  forecast :: "rat option"

record Month =
  label :: string
  "value" :: rat

text \<open>\<^verbatim>\<open>Number(x || 0)\<close> on a number: a falsy number (zero) is replaced by 0.\<close>

definition num_or0 :: "rat \<Rightarrow> rat" where
  "num_or0 x = (if x \<noteq> 0 then x else 0)"

text \<open>
  \<^verbatim>\<open>Array.prototype.slice(start, end)\<close> for integer arguments; \<open>None\<close> is an omitted
  \<^verbatim>\<open>end\<close>. Negative indices count from the end of the array.
\<close>

definition slice :: "int \<Rightarrow> int option \<Rightarrow> 'a list \<Rightarrow> 'a list" where
  "slice start fin xs =
     (let len = int (length xs);
          from = (if start < 0 then max (len + start) 0 else min start len);
          e = (case fin of None \<Rightarrow> len | Some e \<Rightarrow> e);
          final = (if e < 0 then max (len + e) 0 else min e len)
      in take (nat (final - from)) (drop (nat from) xs))"


definition monthlyLabelsAll :: "MonthlyData option \<Rightarrow> string list" where
  "monthlyLabelsAll data =
     map (\<lambda>(m, _). m) (case data of None \<Rightarrow> [] | Some d \<Rightarrow> monthly d)"

definition monthlyValuesAll :: "MonthlyData option \<Rightarrow> rat list" where
  "monthlyValuesAll data =
     map (\<lambda>(_, x). num_or0 x) (case data of None \<Rightarrow> [] | Some d \<Rightarrow> monthly d)"

definition windowSize :: "int \<Rightarrow> MonthlyData option \<Rightarrow> int" where
  "windowSize monthsWindow data =
     (if monthsWindow \<noteq> 0 \<and> monthsWindow > 0
      then min monthsWindow (int (length (monthlyLabelsAll data)))
      else int (length (monthlyLabelsAll data)))"

definition monthlyLabels :: "int \<Rightarrow> MonthlyData option \<Rightarrow> string list" where
  "monthlyLabels monthsWindow data =
     slice (- windowSize monthsWindow data) None (monthlyLabelsAll data)"


definition sum_arr :: "rat list \<Rightarrow> rat" where
  "sum_arr arr = foldl (\<lambda>s x. s + x) 0 arr"


definition totalAll :: "MonthlyData option \<Rightarrow> rat" where
  "totalAll data = sum_arr (monthlyValuesAll data)"


text \<open>\<open>None\<close> is the \<^verbatim>\<open>null\<close> that \<^verbatim>\<open>mom\<close> returns.\<close>

definition mom :: "MonthlyData option \<Rightarrow> rat option" where
  "mom data =
     (let valuesAll = monthlyValuesAll data
      in if length valuesAll < 2 then None
         else
           let last = valuesAll ! (length valuesAll - 1);
               prev = valuesAll ! (length valuesAll - 2)
           in if prev = 0 then None else Some (((last - prev) / prev) * 100))"







subsection \<open>Notions used to state the properties\<close>




section \<open>Backup and restore (SettingsPage)\<close>

subsection \<open>Values\<close>

text \<open>
  A parsed JSON value. An object keeps each key once, as \<^verbatim>\<open>JSON.parse\<close> leaves it.
  A JavaScript value that may be \<^verbatim>\<open>undefined\<close> is a \<open>json option\<close>.
\<close>

datatype json =
    JNull
  | JBool bool
  | JNum rat
  | JStr string
  | JArr "json list"
  | JObj "(string \<times> json) list"

text \<open>\<^verbatim>\<open>typeof x === "object"\<close>: true of objects, arrays and \<^verbatim>\<open>null\<close>.\<close>

fun typeof_object :: "json \<Rightarrow> bool" where
  "typeof_object JNull = True"
| "typeof_object (JArr _) = True"
| "typeof_object (JObj _) = True"
| "typeof_object _ = False"

fun isArray :: "json option \<Rightarrow> bool" where
  "isArray (Some (JArr _)) = True"
| "isArray _ = False"

fun truthy :: "json option \<Rightarrow> bool" where
  "truthy None = False"
| "truthy (Some JNull) = False"
| "truthy (Some (JBool b)) = b"
| "truthy (Some (JNum n)) = (n \<noteq> 0)"
| "truthy (Some (JStr s)) = (s \<noteq> [])"
| "truthy (Some (JArr _)) = True"
| "truthy (Some (JObj _)) = True"

text \<open>
  Reading a property throws a TypeError on \<^verbatim>\<open>null\<close>; the text of the message is the
  engine's. The model covers the properties the page reads (\<^verbatim>\<open>id\<close>,
  \<^verbatim>\<open>expenses\<close>, \<^verbatim>\<open>budgets\<close>, \<^verbatim>\<open>savings\<close>), which no string, number, boolean or
  array has of its own.
\<close>

definition null_read :: "string \<Rightarrow> string" where
  "null_read p = ''Cannot read properties of null (reading '' @ p @ '')''"

fun get_prop :: "string \<Rightarrow> json \<Rightarrow> string + json option" where
  "get_prop p JNull = Inl (null_read p)"
| "get_prop p (JObj kvs) = Inr (map_of kvs p)"
| "get_prop p _ = Inr None"

text \<open>Optional chaining \<^verbatim>\<open>x?.p\<close>: \<^verbatim>\<open>undefined\<close> on \<^verbatim>\<open>null\<close>.\<close>

fun opt_prop :: "string \<Rightarrow> json \<Rightarrow> json option" where
  "opt_prop p (JObj kvs) = map_of kvs p"
| "opt_prop p _ = None"

text \<open>\<^verbatim>\<open>x.length\<close> on a response body.\<close>

fun js_length :: "json \<Rightarrow> string + json option" where
  "js_length JNull = Inl (null_read ''length'')"
| "js_length (JArr xs) = Inr (Some (JNum (of_nat (length xs))))"
| "js_length (JStr s) = Inr (Some (JNum (of_nat (length s))))"
| "js_length (JObj kvs) = Inr (map_of kvs ''length'')"
| "js_length _ = Inr None"

text \<open>
  \<^verbatim>\<open>x.map(f)\<close> is defined on arrays only: on \<^verbatim>\<open>null\<close> the property read throws, on
  any other value \<^verbatim>\<open>x.map\<close> is not a function.
\<close>

fun as_array :: "string \<Rightarrow> json \<Rightarrow> string + json list" where
  "as_array x (JArr xs) = Inr xs"
| "as_array x JNull = Inl (null_read ''map'')"
| "as_array x _ = Inl (x @ ''.map is not a function'')"

subsection \<open>Records of the backup document\<close>

text \<open>
  The records of \<^verbatim>\<open>types.ts\<close>. The page reads their fields through \<^verbatim>\<open>as any\<close> and
  guards each number with \<^verbatim>\<open>|| 0\<close>, so a field the document leaves out is \<open>None\<close>.
  The field names carry the record's initial, since \<^verbatim>\<open>id\<close> and \<^verbatim>\<open>category\<close> occur
  in several of them.
\<close>

record Expense =
  e_id :: "rat option"
  e_date :: "string option"
  e_category :: "string option"
  e_description :: "string option"
  e_amount :: "rat option"

record Budget =
  b_id :: "rat option"
  b_category :: "string option"
  b_limit :: "rat option"
  b_spent :: "rat option"

record Saving =
  s_id :: "rat option"
  s_name :: "string option"
  s_target :: "rat option"
  s_current :: "rat option"

record BackupPayload =
  expenses :: "Expense list option"
  budgets :: "Budget list option"
  savings :: "Saving list option"
  meta :: "(string \<times> json) list option"

text \<open>\<^verbatim>\<open>Number(x || 0)\<close> on a field that may be absent.\<close>

definition number_or0 :: "rat option \<Rightarrow> rat" where
  "number_or0 x = (case x of None \<Rightarrow> 0 | Some n \<Rightarrow> if n \<noteq> 0 then n else 0)"

text \<open>\<^verbatim>\<open>xs?.length || 0\<close> and \<^verbatim>\<open>xs || []\<close> on an array that may be absent.\<close>

definition length_or0 :: "'a list option \<Rightarrow> nat" where
  "length_or0 xs = (case xs of None \<Rightarrow> 0 | Some ys \<Rightarrow> if length ys \<noteq> 0 then length ys else 0)"

definition array_or_empty :: "'a list option \<Rightarrow> 'a list" where
  "array_or_empty xs = (case xs of None \<Rightarrow> [] | Some ys \<Rightarrow> ys)"

subsection \<open>The API client and the page state\<close>

text \<open>
  One constructor per method of \<^verbatim>\<open>api\<close> that the page calls, with the arguments that go
  into the request. A response is the parsed body, or the message of the Error that
  \<^verbatim>\<open>request\<close> throws.
\<close>

datatype api_call =
    GetExpenses
  | GetBudgets
  | GetSavings
  | DeleteExpense "json option"
  | DeleteBudget "json option"
  | DeleteSaving "json option"
  | CreateExpense "string option" "string option" "string option" rat
  | CreateBudget "string option" rat
  | CreateSaving "string option" rat
  | UpdateSaving "json option" rat

type_synonym response = "string + json"

datatype progress = Progress (step: string) (current: nat) (total: nat)

record File =
  file_name :: string
  file_text :: string

text \<open>
  The state of the page, with the remote store behind the API as \<open>server\<close>. Four
  histories stand for what the page shows and does over time: \<open>notices\<close> is every
  argument of \<^verbatim>\<open>setInfo\<close> in order, \<open>progress_log\<close> every argument of
  \<^verbatim>\<open>setImportProgress\<close>, \<open>calls\<close> every request with its response, and \<open>downloads\<close>
  every file handed to the browser (name and document). The payload type \<open>'p\<close> is
  \<open>json\<close> while a file is staged, where the cast to \<^verbatim>\<open>BackupPayload\<close> is unchecked,
  and \<open>BackupPayload\<close> when the import runs.
\<close>

record ('srv, 'p) page =
  notices :: "string list"
  busy :: bool
  currency :: string
  dateFmt :: string
  numFmt :: string
  firstDay :: string
  counts :: "json option \<times> json option \<times> json option"
  pendingImport :: "(string \<times> 'p) option"
  importing :: bool
  progress_log :: "progress option list"
  server :: 'srv
  calls :: "(api_call \<times> response) list"
  downloads :: "(string \<times> json) list"

type_synonym 'srv serve = "api_call \<Rightarrow> 'srv \<Rightarrow> response \<times> 'srv"

definition setInfo :: "string \<Rightarrow> ('srv, 'p) page \<Rightarrow> ('srv, 'p) page" where
  "setInfo m st = st\<lparr>notices := notices st @ [m]\<rparr>"

definition setImportProgress :: "progress option \<Rightarrow> ('srv, 'p) page \<Rightarrow> ('srv, 'p) page" where
  "setImportProgress p st = st\<lparr>progress_log := progress_log st @ [p]\<rparr>"

definition call :: "'srv serve \<Rightarrow> api_call \<Rightarrow> ('srv, 'p) page \<Rightarrow> response \<times> ('srv, 'p) page" where
  "call srv c st =
     (case srv c (server st) of
        (r, s') \<Rightarrow> (r, st\<lparr>server := s', calls := calls st @ [(c, r)]\<rparr>))"

text \<open>
  \<^verbatim>\<open>Promise.all\<close> over requests that are already issued: it rejects with the first
  rejection and otherwise resolves with every body. The requests of one
  \<^verbatim>\<open>Promise.all\<close> are served in the order they are issued, and the first rejection
  is the first in that order.
\<close>

fun promise_all :: "response list \<Rightarrow> string + json list" where
  "promise_all [] = Inr []"
| "promise_all (Inl m # rs) = Inl m"
| "promise_all (Inr x # rs) =
     (case promise_all rs of Inl m \<Rightarrow> Inl m | Inr xs \<Rightarrow> Inr (x # xs))"

text \<open>\<^verbatim>\<open>Promise.all([api.getExpenses(), api.getBudgets(), api.getSavings()])\<close>.\<close>

definition fetch_all ::
  "'srv serve \<Rightarrow> ('srv, 'p) page \<Rightarrow> (string + json \<times> json \<times> json) \<times> ('srv, 'p) page" where
  "fetch_all srv st =
     (case call srv GetExpenses st of (r1, st1) \<Rightarrow>
      case call srv GetBudgets st1 of (r2, st2) \<Rightarrow>
      case call srv GetSavings st2 of (r3, st3) \<Rightarrow>
        (case r1 of Inl m \<Rightarrow> Inl m | Inr ex \<Rightarrow>
         case r2 of Inl m \<Rightarrow> Inl m | Inr bu \<Rightarrow>
         case r3 of Inl m \<Rightarrow> Inl m | Inr sa \<Rightarrow> Inr (ex, bu, sa), st3))"

definition refreshCounts :: "'srv serve \<Rightarrow> ('srv, 'p) page \<Rightarrow> ('srv, 'p) page" where
  "refreshCounts srv st =
     (case fetch_all srv (st\<lparr>busy := True\<rparr>) of
        (Inr (ex, bu, sa), st1) \<Rightarrow>
          (case js_length ex of Inl m \<Rightarrow> setInfo m st1 | Inr a \<Rightarrow>
           case js_length bu of Inl m \<Rightarrow> setInfo m st1 | Inr b \<Rightarrow>
           case js_length sa of Inl m \<Rightarrow> setInfo m st1 | Inr c \<Rightarrow>
             st1\<lparr>counts := (a, b, c)\<rparr>)\<lparr>busy := False\<rparr>
      | (Inl m, st1) \<Rightarrow> (setInfo m st1)\<lparr>busy := False\<rparr>)"


subsection \<open>Export\<close>

text \<open>
  \<^verbatim>\<open>downloadJson\<close>; \<open>now\<close> is \<^verbatim>\<open>new Date().toISOString()\<close>. The download is recorded
  as the document that \<^verbatim>\<open>JSON.stringify\<close> serialises.
\<close>

definition downloadJson :: "'srv serve \<Rightarrow> string \<Rightarrow> ('srv, 'p) page \<Rightarrow> ('srv, 'p) page" where
  "downloadJson srv now st =
     (case fetch_all srv ((setInfo [] st)\<lparr>busy := True\<rparr>) of
        (Inr (ex, bu, sa), st1) \<Rightarrow>
          (setInfo ''Backup downloaded.''
             (st1\<lparr>downloads := downloads st1 @
                [(''finance-backup.json'',
                  JObj [(''expenses'', ex), (''budgets'', bu), (''savings'', sa),
                        (''meta'', JObj [(''exportedAt'', JStr now),
                                         (''currency'', JStr (currency st1)),
                                         (''dateFmt'', JStr (dateFmt st1)),
                                         (''numFmt'', JStr (numFmt st1)),
                                         (''firstDay'', JStr (firstDay st1)),
                                         (''app'', JStr ''FinancePro'')])])]\<rparr>))\<lparr>busy := False\<rparr>
      | (Inl m, st1) \<Rightarrow> (setInfo m st1)\<lparr>busy := False\<rparr>)"

subsection \<open>Import: staging\<close>

text \<open>
  The validity test of \<^verbatim>\<open>handleFile\<close>. The three property reads happen only when
  \<^verbatim>\<open>typeof json === "object"\<close>, left to right, each only if the one before was not an
  array; on \<^verbatim>\<open>null\<close> the first read throws.
\<close>

definition valid :: "json \<Rightarrow> string + bool" where
  "valid j =
     (if \<not> typeof_object j then Inr False
      else
        case get_prop ''expenses'' j of Inl m \<Rightarrow> Inl m | Inr e \<Rightarrow>
        if isArray e then Inr True
        else
          case get_prop ''budgets'' j of Inl m \<Rightarrow> Inl m | Inr b \<Rightarrow>
          if isArray b then Inr True
          else
            case get_prop ''savings'' j of Inl m \<Rightarrow> Inl m | Inr s \<Rightarrow> Inr (isArray s))"

text \<open>
  \<^verbatim>\<open>handleFile\<close>: \<open>parse\<close> is \<^verbatim>\<open>JSON.parse\<close>, which returns the value or throws a
  SyntaxError with a message; \<open>None\<close> is an event without a file.
\<close>

definition handleFile ::
  "(string \<Rightarrow> string + json) \<Rightarrow> File option \<Rightarrow> ('srv, json) page \<Rightarrow> ('srv, json) page" where
  "handleFile parse file st =
     (case file of
        None \<Rightarrow> st
      | Some f \<Rightarrow>
          (case parse (file_text f) of
             Inl m \<Rightarrow> setInfo m st
           | Inr j \<Rightarrow>
               (case valid j of
                  Inl m \<Rightarrow> setInfo m st
                | Inr ok \<Rightarrow>
                    if \<not> ok then setInfo ''Invalid backup file.'' st
                    else setInfo (''Ready to import: '' @ file_name f)
                           (st\<lparr>pendingImport := Some (file_name f, j)\<rparr>))))"

subsection \<open>Import: apply\<close>

text \<open>
  \<^verbatim>\<open>xs.map((x) => api.deleteExpense(x.id))\<close>: the requests are issued one after the
  other while the array is mapped; reading \<^verbatim>\<open>id\<close> of a \<^verbatim>\<open>null\<close> element throws and
  ends the mapping with the earlier requests already issued.
\<close>

fun delete_requests ::
  "'srv serve \<Rightarrow> (json option \<Rightarrow> api_call) \<Rightarrow> json list \<Rightarrow> ('srv, 'p) page
   \<Rightarrow> (string + response list) \<times> ('srv, 'p) page" where
  "delete_requests srv del [] st = (Inr [], st)"
| "delete_requests srv del (x # xs) st =
     (case get_prop ''id'' x of
        Inl m \<Rightarrow> (Inl m, st)
      | Inr i \<Rightarrow>
          (case call srv (del i) st of (r, st1) \<Rightarrow>
             (case delete_requests srv del xs st1 of
                (Inl m, st2) \<Rightarrow> (Inl m, st2)
              | (Inr rs, st2) \<Rightarrow> (Inr (r # rs), st2))))"

text \<open>\<^verbatim>\<open>await Promise.all(x.map(...))\<close> for the body \<open>x\<close> of one of the three reads.\<close>

definition delete_all ::
  "'srv serve \<Rightarrow> (json option \<Rightarrow> api_call) \<Rightarrow> string \<Rightarrow> json \<Rightarrow> ('srv, 'p) page
   \<Rightarrow> (string + unit) \<times> ('srv, 'p) page" where
  "delete_all srv del x body st =
     (case as_array x body of
        Inl m \<Rightarrow> (Inl m, st)
      | Inr xs \<Rightarrow>
          (case delete_requests srv del xs st of
             (Inl m, st1) \<Rightarrow> (Inl m, st1)
           | (Inr rs, st1) \<Rightarrow>
               (case promise_all rs of Inl m \<Rightarrow> (Inl m, st1) | Inr _ \<Rightarrow> (Inr (), st1))))"

text \<open>The part of \<^verbatim>\<open>runImport\<close> under the comment \<^verbatim>\<open>Clear existing\<close>.\<close>

definition clear_existing ::
  "'srv serve \<Rightarrow> ('srv, 'p) page \<Rightarrow> (string + unit) \<times> ('srv, 'p) page" where
  "clear_existing srv st =
     (case fetch_all srv st of
        (Inl m, st1) \<Rightarrow> (Inl m, st1)
      | (Inr (ex, bu, sa), st1) \<Rightarrow>
          (case delete_all srv DeleteExpense ''ex'' ex st1 of
             (Inl m, st2) \<Rightarrow> (Inl m, st2)
           | (Inr _, st2) \<Rightarrow>
               (case delete_all srv DeleteBudget ''bu'' bu st2 of
                  (Inl m, st3) \<Rightarrow> (Inl m, st3)
                | (Inr _, st3) \<Rightarrow> delete_all srv DeleteSaving ''sa'' sa st3)))"

text \<open>\<^verbatim>\<open>bump\<close>, with the counter and the total it closes over as arguments.\<close>

definition bump :: "string \<Rightarrow> nat \<Rightarrow> nat \<Rightarrow> ('srv, 'p) page \<Rightarrow> ('srv, 'p) page" where
  "bump stp done_count tot st = setImportProgress (Some (Progress stp done_count tot)) st"

text \<open>The three \<^verbatim>\<open>for ... of\<close> loops; each returns the counter \<^verbatim>\<open>done\<close>.\<close>

fun import_expenses ::
  "'srv serve \<Rightarrow> nat \<Rightarrow> Expense list \<Rightarrow> nat \<Rightarrow> ('srv, 'p) page
   \<Rightarrow> (string + nat) \<times> ('srv, 'p) page" where
  "import_expenses srv tot [] done_count st = (Inr done_count, st)"
| "import_expenses srv tot (e # es) done_count st =
     (case call srv (CreateExpense (e_date e) (e_category e) (e_description e)
                       (number_or0 (e_amount e))) st of
        (Inl m, st1) \<Rightarrow> (Inl m, st1)
      | (Inr _, st1) \<Rightarrow>
          import_expenses srv tot es (done_count + 1)
            (bump ''Importing expenses'' (done_count + 1) tot st1))"

fun import_budgets ::
  "'srv serve \<Rightarrow> nat \<Rightarrow> Budget list \<Rightarrow> nat \<Rightarrow> ('srv, 'p) page
   \<Rightarrow> (string + nat) \<times> ('srv, 'p) page" where
  "import_budgets srv tot [] done_count st = (Inr done_count, st)"
| "import_budgets srv tot (b # bs) done_count st =
     (case call srv (CreateBudget (b_category b) (number_or0 (b_limit b))) st of
        (Inl m, st1) \<Rightarrow> (Inl m, st1)
      | (Inr _, st1) \<Rightarrow>
          import_budgets srv tot bs (done_count + 1)
            (bump ''Importing budgets'' (done_count + 1) tot st1))"

text \<open>
  The body of the savings loop up to the counter: the creation, then the update of
  \<^verbatim>\<open>current\<close> under its guard \<^verbatim>\<open>current > 0 && created?.id\<close>. Under the guard
  \<^verbatim>\<open>created\<close> is an object, so \<^verbatim>\<open>created.id\<close> is \<^verbatim>\<open>created?.id\<close>.
\<close>

definition import_saving ::
  "'srv serve \<Rightarrow> Saving \<Rightarrow> ('srv, 'p) page \<Rightarrow> (string + unit) \<times> ('srv, 'p) page" where
  "import_saving srv s st =
     (case call srv (CreateSaving (s_name s) (number_or0 (s_target s))) st of
        (Inl m, st1) \<Rightarrow> (Inl m, st1)
      | (Inr created, st1) \<Rightarrow>
          (let cur = number_or0 (s_current s)
           in if cur > 0 \<and> truthy (opt_prop ''id'' created)
              then (case call srv (UpdateSaving (opt_prop ''id'' created) cur) st1 of
                      (Inl m, st2) \<Rightarrow> (Inl m, st2)
                    | (Inr _, st2) \<Rightarrow> (Inr (), st2))
              else (Inr (), st1)))"

fun import_savings ::
  "'srv serve \<Rightarrow> nat \<Rightarrow> Saving list \<Rightarrow> nat \<Rightarrow> ('srv, 'p) page
   \<Rightarrow> (string + nat) \<times> ('srv, 'p) page" where
  "import_savings srv tot [] done_count st = (Inr done_count, st)"
| "import_savings srv tot (s # ss) done_count st =
     (case import_saving srv s st of
        (Inl m, st1) \<Rightarrow> (Inl m, st1)
      | (Inr _, st1) \<Rightarrow>
          import_savings srv tot ss (done_count + 1)
            (bump ''Importing savings'' (done_count + 1) tot st1))"

text \<open>The part of \<^verbatim>\<open>runImport\<close> under the comment \<^verbatim>\<open>Restore (sequential with progress)\<close>.\<close>

definition restore ::
  "'srv serve \<Rightarrow> BackupPayload \<Rightarrow> ('srv, 'p) page \<Rightarrow> (string + unit) \<times> ('srv, 'p) page" where
  "restore srv payload st =
     (let tot = length_or0 (expenses payload) + length_or0 (budgets payload)
                + length_or0 (savings payload)
      in case import_expenses srv tot (array_or_empty (expenses payload)) 0
                (bump ''Importing expenses'' 0 tot st) of
           (Inl m, st1) \<Rightarrow> (Inl m, st1)
         | (Inr d1, st1) \<Rightarrow>
             (case import_budgets srv tot (array_or_empty (budgets payload)) d1
                     (bump ''Importing budgets'' d1 tot st1) of
                (Inl m, st2) \<Rightarrow> (Inl m, st2)
              | (Inr d2, st2) \<Rightarrow>
                  (case import_savings srv tot (array_or_empty (savings payload)) d2
                          (bump ''Importing savings'' d2 tot st2) of
                     (Inl m, st3) \<Rightarrow> (Inl m, st3)
                   | (Inr _, st3) \<Rightarrow> (Inr (), st3))))"

text \<open>The \<^verbatim>\<open>try\<close> block of \<^verbatim>\<open>runImport\<close> up to the last loop.\<close>

definition import_try ::
  "'srv serve \<Rightarrow> BackupPayload \<Rightarrow> ('srv, 'p) page \<Rightarrow> (string + unit) \<times> ('srv, 'p) page" where
  "import_try srv payload st =
     (case clear_existing srv st of
        (Inl m, st1) \<Rightarrow> (Inl m, st1)
      | (Inr _, st1) \<Rightarrow> restore srv payload st1)"

text \<open>
  The three calls that open \<^verbatim>\<open>runImport\<close> once the import is confirmed:
  \<^verbatim>\<open>setImporting(true)\<close>, the first progress report and \<^verbatim>\<open>setInfo("")\<close>.
  \<^verbatim>\<open>runImport\<close> follows; \<open>confirmed\<close> is the answer to \<^verbatim>\<open>confirm(...)\<close>. The call of
  \<^verbatim>\<open>refreshCounts\<close> is not awaited: its requests are issued at the call, and what it
  sets later (\<^verbatim>\<open>busy\<close>, \<^verbatim>\<open>counts\<close>, a notice if it fails) is entered in the histories
  at the call.
\<close>

definition begin_import :: "('srv, 'p) page \<Rightarrow> ('srv, 'p) page" where
  "begin_import st =
     setInfo [] (setImportProgress (Some (Progress ''Clearing existing'' 0 1))
                   (st\<lparr>importing := True\<rparr>))"

definition runImport ::
  "'srv serve \<Rightarrow> bool \<Rightarrow> ('srv, BackupPayload) page \<Rightarrow> ('srv, BackupPayload) page" where
  "runImport srv confirmed st =
     (case pendingImport st of
        None \<Rightarrow> st
      | Some (nm, payload) \<Rightarrow>
          if \<not> confirmed then st
          else
            (case import_try srv payload (begin_import st) of
               (Inr _, st1) \<Rightarrow>
                 setImportProgress None
                   ((refreshCounts srv
                       (setInfo ''Import completed.'' (st1\<lparr>pendingImport := None\<rparr>)))
                    \<lparr>importing := False\<rparr>)
             | (Inl m, st1) \<Rightarrow>
                 setImportProgress None ((setInfo m st1)\<lparr>importing := False\<rparr>)))"


section \<open>Notions used to state the properties of backup and restore\<close>

text \<open>
  The definitions of this section are not taken from the page: they are the words in
  which its properties are stated.
\<close>

subsection \<open>Documents and requests\<close>

text \<open>
  A valid backup document: an object in which at least one of \<^verbatim>\<open>expenses\<close>,
  \<^verbatim>\<open>budgets\<close> and \<^verbatim>\<open>savings\<close> is an array.
\<close>

definition spec_valid_document :: "json \<Rightarrow> bool" where
  "spec_valid_document j =
     (case j of
        JObj kvs \<Rightarrow> isArray (map_of kvs ''expenses'') \<or> isArray (map_of kvs ''budgets'')
                    \<or> isArray (map_of kvs ''savings'')
      | _ \<Rightarrow> False)"

text \<open>
  The kinds of request, by the HTTP method \<^verbatim>\<open>api.ts\<close> gives them: the three reads are
  GET requests, the others POST, PUT and DELETE.
\<close>

fun is_read :: "api_call \<Rightarrow> bool" where
  "is_read GetExpenses = True"
| "is_read GetBudgets = True"
| "is_read GetSavings = True"
| "is_read _ = False"





subsection \<open>The order of the requests of a restore\<close>



definition saving_requests :: "Saving \<Rightarrow> json \<Rightarrow> api_call list" where
  "saving_requests s created =
     CreateSaving (s_name s) (number_or0 (s_target s)) #
     (if number_or0 (s_current s) > 0 \<and> truthy (opt_prop ''id'' created)
      then [UpdateSaving (opt_prop ''id'' created) (number_or0 (s_current s))] else [])"

text \<open>
  The requests of a whole restore, in order, when the creations of the savings answer
  \<open>rs\<close>: every expense, then every budget, then saving by saving.
\<close>

fun savings_plan :: "Saving list \<Rightarrow> json list \<Rightarrow> api_call list" where
  "savings_plan (sv # ss) (r # rs) = saving_requests sv r @ savings_plan ss rs"
| "savings_plan _ _ = []"





subsection \<open>The progress reports of a restore\<close>


subsection \<open>Sequential runs\<close>

text \<open>
  A step is what one record's requests do to the store: its outcome, the store after
  it, and the requests it made. \<open>run_steps\<close> runs steps one after the other until one
  fails, and counts the steps that succeeded. The loops of the page are related to it
  below; it serves the proofs.
\<close>

type_synonym 'srv step = "'srv \<Rightarrow> (string + unit) \<times> 'srv \<times> (api_call \<times> response) list"







section \<open>A page and two servers for the examples\<close>

text \<open>
  The page as \<^verbatim>\<open>useState\<close> initialises it, before any notice, and a store that answers
  every request: it holds two expenses and a budget, and numbers the records it creates
  from 10. \<open>rejecting bad\<close> answers the request \<open>bad\<close> with the network error of
  \<^verbatim>\<open>request\<close> and every other request as \<open>demo_server\<close> does.
\<close>

definition initial_page :: "'srv \<Rightarrow> ('srv, 'p) page" where
  "initial_page s =
     \<lparr>notices = [], busy = False, currency = ''Rs.'', dateFmt = ''YYYY-MM-DD'',
      numFmt = ''1,234.56'', firstDay = ''Mon'',
      counts = (Some (JNum 0), Some (JNum 0), Some (JNum 0)),
      pendingImport = None, importing = False, progress_log = [],
      server = s, calls = [], downloads = []\<rparr>"

fun demo_server :: "nat serve" where
  "demo_server GetExpenses n =
     (Inr (JArr [JObj [(''id'', JNum 1)], JObj [(''id'', JNum 2)]]), n)"
| "demo_server GetBudgets n = (Inr (JArr [JObj [(''id'', JNum 3)]]), n)"
| "demo_server GetSavings n = (Inr (JArr []), n)"
| "demo_server (DeleteExpense i) n = (Inr JNull, n)"
| "demo_server (DeleteBudget i) n = (Inr JNull, n)"
| "demo_server (DeleteSaving i) n = (Inr JNull, n)"
| "demo_server (CreateExpense d c t a) n = (Inr (JObj [(''id'', JNum (of_nat n + 10))]), Suc n)"
| "demo_server (CreateBudget c l) n = (Inr (JObj [(''id'', JNum (of_nat n + 10))]), Suc n)"
| "demo_server (CreateSaving m t) n = (Inr (JObj [(''id'', JNum (of_nat n + 10))]), Suc n)"
| "demo_server (UpdateSaving i c) n = (Inr JNull, n)"

definition rejecting :: "api_call \<Rightarrow> nat serve" where
  "rejecting bad c n =
     (if c = bad then (Inl ''Network error. Is the API running on 4000?'', n)
      else demo_server c n)"




section \<open>Properties of the report aggregation\<close>

subsection \<open>Arithmetic and slices\<close>

lemma num_or0_id: "num_or0 x = x"
  by (simp add: num_or0_def)








subsection \<open>The monthly series and its window\<close>

lemma monthlyValuesAll_Some: "monthlyValuesAll (Some d) = map snd (monthly d)"
  by (simp add: monthlyValuesAll_def num_or0_id case_prod_unfold)






subsection \<open>Month-over-month change\<close>

lemma mom_last_two:
  "mom data =
     (let vs = monthlyValuesAll data
      in if 2 \<le> length vs \<and> last (butlast vs) \<noteq> 0
         then Some ((last vs - last (butlast vs)) / last (butlast vs) * 100)
         else None)"
proof (cases "length (monthlyValuesAll data) < 2")
  case True
  then show ?thesis by (simp add: mom_def Let_def)
next
  case False
  let ?vs = "monthlyValuesAll data"
  from False have ne: "?vs \<noteq> []" "butlast ?vs \<noteq> []"
    by (cases "monthlyValuesAll data"; cases "tl (monthlyValuesAll data)"; simp)+
  have l: "?vs ! (length ?vs - 1) = last ?vs"
    using ne by (simp add: last_conv_nth)
  have p: "?vs ! (length ?vs - 2) = last (butlast ?vs)"
    using ne False by (simp add: last_conv_nth nth_butlast numeral_2_eq_2)
  show ?thesis using False by (simp add: mom_def Let_def l[simplified] p[simplified])
qed

lemma mom_two_months:
  "mom (Some \<lparr>monthly = [(a, x), (b, y)], byCat = c, forecast = f\<rparr>) =
     (if x = 0 then None else Some ((y - x) / x * 100))"
  by (simp add: mom_def monthlyValuesAll_Some)

text \<open>
  Claim C6. The month-over-month change is taken over the full series
  \<open>monthlyValuesAll\<close>, not the windowed one. With fewer than two months, or with a
  previous month of 0, it is undefined (\<open>None\<close>); otherwise it is
  \<open>(last - prev) / prev * 100\<close> for the last two entries. The series \<open>[0, 50]\<close> gives
  no value, \<open>[50, 0]\<close> gives -100 and \<open>[100, 150]\<close> gives 50.
\<close>

theorem C6_mom:
  "(length (monthlyValuesAll data) < 2 \<or> last (butlast (monthlyValuesAll data)) = 0
      \<longrightarrow> mom data = None) \<and>
   (2 \<le> length (monthlyValuesAll data) \<and> last (butlast (monthlyValuesAll data)) \<noteq> 0
      \<longrightarrow> mom data =
            Some ((last (monthlyValuesAll data) - last (butlast (monthlyValuesAll data)))
                  / last (butlast (monthlyValuesAll data)) * 100)) \<and>
   mom (Some \<lparr>monthly = [(a, 0), (b, 50)], byCat = c, forecast = f\<rparr>) = None \<and>
   mom (Some \<lparr>monthly = [(a, 50), (b, 0)], byCat = c, forecast = f\<rparr>) = Some (- 100) \<and>
   mom (Some \<lparr>monthly = [(a, 100), (b, 150)], byCat = c, forecast = f\<rparr>) = Some 50"
proof -
  have "length (monthlyValuesAll data) < 2 \<or> last (butlast (monthlyValuesAll data)) = 0
        \<longrightarrow> mom data = None"
    by (auto simp: mom_last_two Let_def)
  moreover have "2 \<le> length (monthlyValuesAll data) \<and> last (butlast (monthlyValuesAll data)) \<noteq> 0
      \<longrightarrow> mom data =
            Some ((last (monthlyValuesAll data) - last (butlast (monthlyValuesAll data)))
                  / last (butlast (monthlyValuesAll data)) * 100)"
    by (simp add: mom_last_two Let_def)
  ultimately show ?thesis by (simp add: mom_two_months)
qed

theorem C6_mom_witness:
  "2 \<le> length (monthlyValuesAll (Some \<lparr>monthly = [(''2024-01'', 100), (''2024-02'', 150)],
                                        byCat = [], forecast = None\<rparr>)) \<and>
   last (butlast (monthlyValuesAll (Some \<lparr>monthly = [(''2024-01'', 100), (''2024-02'', 150)],
                                           byCat = [], forecast = None\<rparr>))) \<noteq> 0 \<and>
   mom (Some \<lparr>monthly = [(''2024-01'', 100), (''2024-02'', 150)], byCat = [], forecast = None\<rparr>)
     = Some 50 \<and>
   length (monthlyValuesAll (Some \<lparr>monthly = [(''2024-01'', 100)], byCat = [], forecast = None\<rparr>)) < 2 \<and>
   mom (Some \<lparr>monthly = [(''2024-01'', 100)], byCat = [], forecast = None\<rparr>) = None"
  using C6_mom [of "Some \<lparr>monthly = [(''2024-01'', 100), (''2024-02'', 150)],
                        byCat = [], forecast = None\<rparr>"]
        C6_mom [of "Some \<lparr>monthly = [(''2024-01'', 100)], byCat = [], forecast = None\<rparr>"]
  by (simp add: monthlyValuesAll_Some)


subsection \<open>Moving average\<close>











subsection \<open>Top categories and Other\<close>











subsection \<open>Anomalies\<close>









section \<open>Properties of backup and restore\<close>

lemma valid_accepts: "spec_valid_document j \<Longrightarrow> valid j = Inr True"
  by (cases j) (auto simp: valid_def spec_valid_document_def)

lemma valid_rejects:
  "\<not> spec_valid_document j \<Longrightarrow>
   valid j = (if j = JNull then Inl (null_read ''expenses'') else Inr False)"
  by (cases j) (auto simp: valid_def spec_valid_document_def)

lemma handleFile_accept:
  "parse (file_text f) = Inr j \<Longrightarrow> spec_valid_document j \<Longrightarrow>
   handleFile parse (Some f) st =
     st\<lparr>pendingImport := Some (file_name f, j),
        notices := notices st @ [''Ready to import: '' @ file_name f]\<rparr>"
  by (simp add: handleFile_def valid_accepts setInfo_def)

lemma handleFile_parse_error:
  "parse (file_text f) = Inl m \<Longrightarrow>
   handleFile parse (Some f) st = st\<lparr>notices := notices st @ [m]\<rparr>"
  by (simp add: handleFile_def setInfo_def)

lemma handleFile_reject:
  "parse (file_text f) = Inr j \<Longrightarrow> \<not> spec_valid_document j \<Longrightarrow>
   handleFile parse (Some f) st =
     st\<lparr>notices := notices st @
          [if j = JNull then null_read ''expenses'' else ''Invalid backup file.'']\<rparr>"
  by (simp add: handleFile_def valid_rejects setInfo_def)

lemma handleFile_no_calls:
  "calls (handleFile parse file st) = calls st \<and> server (handleFile parse file st) = server st
   \<and> downloads (handleFile parse file st) = downloads st"
  by (auto simp: handleFile_def setInfo_def split: option.splits sum.splits)

lemma fetch_all_eq:
  "fetch_all srv st =
     (case srv GetExpenses (server st) of (r1, s1) \<Rightarrow>
      case srv GetBudgets s1 of (r2, s2) \<Rightarrow>
      case srv GetSavings s2 of (r3, s3) \<Rightarrow>
        (case r1 of Inl m \<Rightarrow> Inl m | Inr ex \<Rightarrow>
         case r2 of Inl m \<Rightarrow> Inl m | Inr bu \<Rightarrow>
         case r3 of Inl m \<Rightarrow> Inl m | Inr sa \<Rightarrow> Inr (ex, bu, sa),
         st\<lparr>server := s3,
            calls := calls st @ [(GetExpenses, r1), (GetBudgets, r2), (GetSavings, r3)]\<rparr>))"
  by (simp add: fetch_all_def call_def split: prod.splits)

lemma call_eq:
  "call srv c st =
     (fst (srv c (server st)),
      st\<lparr>server := snd (srv c (server st)), calls := calls st @ [(c, fst (srv c (server st)))]\<rparr>)"
  by (simp add: call_def split: prod.splits)

lemma downloadJson_calls:
  assumes "srv GetExpenses (server st) = (r1, s1)" "srv GetBudgets s1 = (r2, s2)"
    "srv GetSavings s2 = (r3, s3)"
  shows "calls (downloadJson srv now st)
           = calls st @ [(GetExpenses, r1), (GetBudgets, r2), (GetSavings, r3)]"
    and "server (downloadJson srv now st) = s3"
  using assms
  by (simp_all add: downloadJson_def fetch_all_eq setInfo_def split: sum.splits)

lemma downloadJson_ok:
  assumes "srv GetExpenses (server st) = (Inr ex, s1)" "srv GetBudgets s1 = (Inr bu, s2)"
    "srv GetSavings s2 = (Inr sa, s3)"
  shows "downloads (downloadJson srv now st) = downloads st @
           [(''finance-backup.json'',
             JObj [(''expenses'', ex), (''budgets'', bu), (''savings'', sa),
                   (''meta'', JObj [(''exportedAt'', JStr now),
                                    (''currency'', JStr (currency st)),
                                    (''dateFmt'', JStr (dateFmt st)),
                                    (''numFmt'', JStr (numFmt st)),
                                    (''firstDay'', JStr (firstDay st)),
                                    (''app'', JStr ''FinancePro'')])])]"
    and "notices (downloadJson srv now st) = notices st @ [[], ''Backup downloaded.'']"
  using assms
  by (simp_all add: downloadJson_def fetch_all_eq setInfo_def)

lemma downloadJson_failed:
  assumes "srv GetExpenses (server st) = (r1, s1)" "srv GetBudgets s1 = (r2, s2)"
    "srv GetSavings s2 = (r3, s3)" "isl r1 \<or> isl r2 \<or> isl r3"
  shows "downloads (downloadJson srv now st) = downloads st"
    and "\<exists>m. notices (downloadJson srv now st) = notices st @ [[], m]
              \<and> (r1 = Inl m \<or> r2 = Inl m \<or> r3 = Inl m)"
  using assms
  by (auto simp: downloadJson_def fetch_all_eq setInfo_def split: sum.splits)

lemma import_saving_created:
  assumes "srv (CreateSaving (s_name s) (number_or0 (s_target s))) (server st) = (Inr created, s1)"
  shows "import_saving srv s st =
     (if number_or0 (s_current s) > 0 \<and> truthy (opt_prop ''id'' created)
      then (case srv (UpdateSaving (opt_prop ''id'' created) (number_or0 (s_current s))) s1 of
              (r, s2) \<Rightarrow>
                (case r of Inl m \<Rightarrow> Inl m | Inr _ \<Rightarrow> Inr (),
                 st\<lparr>server := s2,
                    calls := calls st @
                      [(CreateSaving (s_name s) (number_or0 (s_target s)), Inr created),
                       (UpdateSaving (opt_prop ''id'' created) (number_or0 (s_current s)), r)]\<rparr>))
      else (Inr (),
            st\<lparr>server := s1,
               calls := calls st @
                 [(CreateSaving (s_name s) (number_or0 (s_target s)), Inr created)]\<rparr>))"
  using assms
  by (auto simp: import_saving_def call_eq Let_def split: prod.splits sum.splits)

lemma import_saving_rejected:
  assumes "srv (CreateSaving (s_name s) (number_or0 (s_target s))) (server st) = (Inl m, s1)"
  shows "import_saving srv s st =
     (Inl m, st\<lparr>server := s1,
               calls := calls st @ [(CreateSaving (s_name s) (number_or0 (s_target s)), Inl m)]\<rparr>)"
  using assms by (simp add: import_saving_def call_eq)

lemma number_or0_not_positive:
  "x = None \<or> (\<exists>c. x = Some c \<and> c \<le> 0) \<Longrightarrow> \<not> number_or0 x > 0"
  by (auto simp: number_or0_def split: if_splits)


lemma call_step:
  "call srv c st =
     (case srv c (server st) of
        (r, s') \<Rightarrow> (r, st\<lparr>server := s', calls := calls st @ [(c, r)]\<rparr>))"
  by (simp add: call_def)







lemma map_upt_Suc_shift:
  "f d # map (\<lambda>i. f (d + Suc i)) [0 ..< n] = map (\<lambda>i. f (d + i)) [0 ..< Suc n]"
  by (simp add: map_upt_Suc del: upt_Suc)










lemma savings_plan_Nil [simp]: "savings_plan ss [] = []"
  by (cases ss) simp_all

















subsection \<open>Staging, export, and the outcome of an import\<close>

lemma runImport_unconfirmed: "runImport srv False pg = pg"
  by (simp add: runImport_def split: option.splits)

lemma runImport_nothing_staged: "pendingImport pg = None \<Longrightarrow> runImport srv c pg = pg"
  by (simp add: runImport_def)

text \<open>
  Claim C1. A file whose text parses to a valid backup document (an object in which at
  least one of \<^verbatim>\<open>expenses\<close>, \<^verbatim>\<open>budgets\<close>, \<^verbatim>\<open>savings\<close> is an array) becomes the pending
  import, with the notice that it is ready. A text that parses to anything else, or does
  not parse, leaves the pending import as it was and only adds a notice: the parser's
  message, or that the backup file is invalid (for \<^verbatim>\<open>null\<close>, the message of the
  TypeError that reading its property throws). Whatever the file, staging makes no request
  and leaves the store alone. Applying is a separate step: \<^verbatim>\<open>runImport\<close> does nothing
  unless an import is pending and the user confirms.
\<close>

theorem C1_staging:
  "(parse (file_text f) = Inr j \<and> spec_valid_document j \<longrightarrow>
      handleFile parse (Some f) st =
        st\<lparr>pendingImport := Some (file_name f, j),
           notices := notices st @ [''Ready to import: '' @ file_name f]\<rparr>) \<and>
   (parse (file_text f) = Inr j \<and> \<not> spec_valid_document j \<longrightarrow>
      handleFile parse (Some f) st =
        st\<lparr>notices := notices st @
             [if j = JNull then null_read ''expenses'' else ''Invalid backup file.'']\<rparr>) \<and>
   (parse (file_text f) = Inl m \<longrightarrow>
      handleFile parse (Some f) st = st\<lparr>notices := notices st @ [m]\<rparr>) \<and>
   calls (handleFile parse fl st) = calls st \<and>
   server (handleFile parse fl st) = server st \<and>
   runImport srv False pg = pg \<and>
   (pendingImport pg = None \<longrightarrow> runImport srv confirmed pg = pg)"
  using handleFile_accept [of parse f j st] handleFile_reject [of parse f j st]
    handleFile_parse_error [of parse f m st] handleFile_no_calls [of parse fl st]
    runImport_unconfirmed [of srv pg] runImport_nothing_staged [of pg srv confirmed]
  by blast

text \<open>Three files on the initial page: a valid document, an invalid one, and a text that does not parse.\<close>

theorem C1_staging_witness:
  "spec_valid_document (JObj [(''budgets'', JArr [])]) \<and>
   handleFile (\<lambda>t. Inr (JObj [(''budgets'', JArr [])]))
       (Some \<lparr>file_name = ''backup.json'', file_text = ''{}''\<rparr>) (initial_page (0::nat))
     = (initial_page 0)\<lparr>pendingImport := Some (''backup.json'', JObj [(''budgets'', JArr [])]),
                         notices := [''Ready to import: backup.json'']\<rparr> \<and>
   \<not> spec_valid_document (JObj [(''expenses'', JNum 3)]) \<and>
   handleFile (\<lambda>t. Inr (JObj [(''expenses'', JNum 3)]))
       (Some \<lparr>file_name = ''backup.json'', file_text = ''{}''\<rparr>) (initial_page (0::nat))
     = (initial_page 0)\<lparr>notices := [''Invalid backup file.'']\<rparr> \<and>
   handleFile (\<lambda>t. Inl ''Unexpected end of JSON input'')
       (Some \<lparr>file_name = ''backup.json'', file_text = ''{''\<rparr>) (initial_page (0::nat))
     = (initial_page 0)\<lparr>notices := [''Unexpected end of JSON input'']\<rparr> \<and>
   pendingImport (initial_page (0::nat) :: (nat, BackupPayload) page) = None \<and>
   runImport demo_server True (initial_page 0) = initial_page 0"
proof -
  let ?f = "\<lparr>file_name = ''backup.json'', file_text = ''{}''\<rparr>"
  let ?g = "\<lparr>file_name = ''backup.json'', file_text = ''{''\<rparr>"
  let ?pg = "initial_page (0::nat) :: (nat, BackupPayload) page"
  have v1: "spec_valid_document (JObj [(''budgets'', JArr [])])"
    and v2: "\<not> spec_valid_document (JObj [(''expenses'', JNum 3)])"
    by (simp_all add: spec_valid_document_def)
  have n: "pendingImport ?pg = None" "notices (initial_page (0::nat) :: (nat, json) page) = []"
    by (simp_all add: initial_page_def)
  have "handleFile (\<lambda>t. Inr (JObj [(''budgets'', JArr [])])) (Some ?f) (initial_page (0::nat))
     = (initial_page 0)\<lparr>pendingImport := Some (''backup.json'', JObj [(''budgets'', JArr [])]),
                         notices := [''Ready to import: backup.json'']\<rparr>"
    using C1_staging [where parse = "\<lambda>t. Inr (JObj [(''budgets'', JArr [])])" and f = ?f
        and j = "JObj [(''budgets'', JArr [])]" and st = "initial_page (0::nat)"
        and fl = None and srv = demo_server and pg = ?pg and confirmed = True and m = "[]"] v1 n
    by simp
  moreover have "handleFile (\<lambda>t. Inr (JObj [(''expenses'', JNum 3)])) (Some ?f)
       (initial_page (0::nat)) = (initial_page 0)\<lparr>notices := [''Invalid backup file.'']\<rparr>"
    using C1_staging [where parse = "\<lambda>t. Inr (JObj [(''expenses'', JNum 3)])" and f = ?f
        and j = "JObj [(''expenses'', JNum 3)]" and st = "initial_page (0::nat)"
        and fl = None and srv = demo_server and pg = ?pg and confirmed = True and m = "[]"] v2 n
    by simp
  moreover have "handleFile (\<lambda>t. Inl ''Unexpected end of JSON input'') (Some ?g)
       (initial_page (0::nat)) = (initial_page 0)\<lparr>notices := [''Unexpected end of JSON input'']\<rparr>"
    using C1_staging [where parse = "\<lambda>t. Inl ''Unexpected end of JSON input''" and f = ?g
        and m = "''Unexpected end of JSON input''" and st = "initial_page (0::nat)"
        and fl = None and srv = demo_server and pg = ?pg and confirmed = True and j = JNull] n
    by simp
  moreover have "runImport demo_server True ?pg = ?pg"
    using C1_staging [where pg = ?pg and srv = demo_server and confirmed = True] n by blast
  ultimately show ?thesis using v1 v2 n by simp
qed


lemma downloadJson_server:
  assumes "srv GetExpenses (server st) = (r1, s1)" "srv GetBudgets s1 = (r2, s2)"
    "srv GetSavings s2 = (r3, s3)" "\<forall>c s. is_read c \<longrightarrow> snd (srv c s) = s"
  shows "server (downloadJson srv now st) = server st"
proof -
  have "s1 = server st" using assms(1) assms(4) by (metis is_read.simps(1) snd_conv)
  moreover have "s2 = s1" using assms(2) assms(4) by (metis is_read.simps(2) snd_conv)
  moreover have "s3 = s2" using assms(3) assms(4) by (metis is_read.simps(3) snd_conv)
  ultimately show ?thesis using downloadJson_calls(2) [OF assms(1-3)] by simp
qed

text \<open>
  Claim C7. The export makes exactly three requests, the reads of expenses, budgets and
  savings, and no other; when reads leave the store as it is, so does the export. If any
  of the three reads is rejected, no file is downloaded and one notice is added, the
  message of a rejected read. If all three succeed, one file is downloaded, holding the
  three bodies and the metadata.
\<close>

theorem C7_export:
  assumes "srv GetExpenses (server st) = (r1, s1)" "srv GetBudgets s1 = (r2, s2)"
    "srv GetSavings s2 = (r3, s3)"
  shows "calls (downloadJson srv now st)
           = calls st @ [(GetExpenses, r1), (GetBudgets, r2), (GetSavings, r3)] \<and>
         is_read GetExpenses \<and> is_read GetBudgets \<and> is_read GetSavings \<and>
         ((\<forall>c s. is_read c \<longrightarrow> snd (srv c s) = s)
            \<longrightarrow> server (downloadJson srv now st) = server st) \<and>
         (isl r1 \<or> isl r2 \<or> isl r3 \<longrightarrow>
            downloads (downloadJson srv now st) = downloads st \<and>
            (\<exists>m. notices (downloadJson srv now st) = notices st @ [[], m]
                  \<and> (r1 = Inl m \<or> r2 = Inl m \<or> r3 = Inl m))) \<and>
         (\<forall>ex bu sa. r1 = Inr ex \<and> r2 = Inr bu \<and> r3 = Inr sa \<longrightarrow>
            downloads (downloadJson srv now st) = downloads st @
              [(''finance-backup.json'',
                JObj [(''expenses'', ex), (''budgets'', bu), (''savings'', sa),
                      (''meta'', JObj [(''exportedAt'', JStr now),
                                       (''currency'', JStr (currency st)),
                                       (''dateFmt'', JStr (dateFmt st)),
                                       (''numFmt'', JStr (numFmt st)),
                                       (''firstDay'', JStr (firstDay st)),
                                       (''app'', JStr ''FinancePro'')])])] \<and>
            notices (downloadJson srv now st) = notices st @ [[], ''Backup downloaded.''])"
proof -
  have a: "calls (downloadJson srv now st)
           = calls st @ [(GetExpenses, r1), (GetBudgets, r2), (GetSavings, r3)]"
    using downloadJson_calls(1) [OF assms] .
  have b: "(\<forall>c s. is_read c \<longrightarrow> snd (srv c s) = s)
            \<longrightarrow> server (downloadJson srv now st) = server st"
    using downloadJson_server [OF assms] by blast
  have c: "isl r1 \<or> isl r2 \<or> isl r3 \<longrightarrow>
            downloads (downloadJson srv now st) = downloads st \<and>
            (\<exists>m. notices (downloadJson srv now st) = notices st @ [[], m]
                  \<and> (r1 = Inl m \<or> r2 = Inl m \<or> r3 = Inl m))"
    using downloadJson_failed [OF assms] by blast
  have d: "\<forall>ex bu sa. r1 = Inr ex \<and> r2 = Inr bu \<and> r3 = Inr sa \<longrightarrow>
            downloads (downloadJson srv now st) = downloads st @
              [(''finance-backup.json'',
                JObj [(''expenses'', ex), (''budgets'', bu), (''savings'', sa),
                      (''meta'', JObj [(''exportedAt'', JStr now),
                                       (''currency'', JStr (currency st)),
                                       (''dateFmt'', JStr (dateFmt st)),
                                       (''numFmt'', JStr (numFmt st)),
                                       (''firstDay'', JStr (firstDay st)),
                                       (''app'', JStr ''FinancePro'')])])] \<and>
            notices (downloadJson srv now st) = notices st @ [[], ''Backup downloaded.'']"
    using assms downloadJson_ok [of srv st _ s1 _ s2 _ s3 now] by blast
  show ?thesis using a b c d by simp
qed

text \<open>An export in which the read of the budgets is rejected.\<close>

theorem C7_export_witness:
  "rejecting GetBudgets GetExpenses (server (initial_page 0 :: (nat, json) page))
     = (Inr (JArr [JObj [(''id'', JNum 1)], JObj [(''id'', JNum 2)]]), 0) \<and>
   rejecting GetBudgets GetBudgets 0 = (Inl ''Network error. Is the API running on 4000?'', 0) \<and>
   rejecting GetBudgets GetSavings 0 = (Inr (JArr []), 0) \<and>
   isl (Inl ''Network error. Is the API running on 4000?'' :: response) \<and>
   downloads (downloadJson (rejecting GetBudgets) ''2024-01-01T00:00:00.000Z''
                (initial_page 0 :: (nat, json) page)) = [] \<and>
   notices (downloadJson (rejecting GetBudgets) ''2024-01-01T00:00:00.000Z''
                (initial_page 0 :: (nat, json) page))
     = [[], ''Network error. Is the API running on 4000?''] \<and>
   map fst (calls (downloadJson (rejecting GetBudgets) ''2024-01-01T00:00:00.000Z''
                (initial_page 0 :: (nat, json) page)))
     = [GetExpenses, GetBudgets, GetSavings] \<and>
   server (downloadJson (rejecting GetBudgets) ''2024-01-01T00:00:00.000Z''
                (initial_page 0 :: (nat, json) page)) = 0"
proof -
  let ?st = "initial_page 0 :: (nat, json) page"
  let ?srv = "rejecting GetBudgets"
  let ?ex = "Inr (JArr [JObj [(''id'', JNum 1)], JObj [(''id'', JNum 2)]]) :: response"
  let ?bu = "Inl ''Network error. Is the API running on 4000?'' :: response"
  let ?sa = "Inr (JArr []) :: response"
  have h: "?srv GetExpenses (server ?st) = (?ex, 0)" "?srv GetBudgets 0 = (?bu, 0)"
    "?srv GetSavings 0 = (?sa, 0)"
    by (simp_all add: rejecting_def initial_page_def)
  have pure: "\<forall>c s. is_read c \<longrightarrow> snd (?srv c s) = s"
  proof (intro allI impI)
    fix c :: api_call and s :: nat
    assume "is_read c"
    then show "snd (?srv c s) = s" by (cases c) (simp_all add: rejecting_def)
  qed
  have i: "isl ?bu" by simp
  note t = C7_export [OF h, of "''2024-01-01T00:00:00.000Z''"]
  have "downloads (downloadJson ?srv ''2024-01-01T00:00:00.000Z'' ?st) = []"
    using t i by (simp add: initial_page_def)
  moreover have "notices (downloadJson ?srv ''2024-01-01T00:00:00.000Z'' ?st)
     = [[], ''Network error. Is the API running on 4000?'']"
    using t i by (auto simp: initial_page_def)
  moreover have "map fst (calls (downloadJson ?srv ''2024-01-01T00:00:00.000Z'' ?st))
     = [GetExpenses, GetBudgets, GetSavings]"
    using t by (simp add: initial_page_def)
  moreover have "server (downloadJson ?srv ''2024-01-01T00:00:00.000Z'' ?st) = 0"
    using t pure by (simp add: initial_page_def)
  ultimately show ?thesis using h i by simp
qed

lemma import_saving_no_update:
  assumes "srv (CreateSaving (s_name s) (number_or0 (s_target s))) (server st) = (Inr created, s1)"
    and "\<not> (number_or0 (s_current s) > 0 \<and> truthy (opt_prop ''id'' created))"
  shows "import_saving srv s st =
     (Inr (), st\<lparr>server := s1,
               calls := calls st @
                 [(CreateSaving (s_name s) (number_or0 (s_target s)), Inr created)]\<rparr>)"
  using assms(2) by (auto simp: import_saving_created [of srv s st created s1, OF assms(1)])

lemma import_saving_update:
  assumes "srv (CreateSaving (s_name s) (number_or0 (s_target s))) (server st) = (Inr created, s1)"
    and "number_or0 (s_current s) > 0 \<and> truthy (opt_prop ''id'' created)"
  shows "calls (snd (import_saving srv s st)) = calls st @
      [(CreateSaving (s_name s) (number_or0 (s_target s)), Inr created),
       (UpdateSaving (opt_prop ''id'' created) (number_or0 (s_current s)),
        fst (srv (UpdateSaving (opt_prop ''id'' created) (number_or0 (s_current s))) s1))]"
  using assms(2) by (simp add: import_saving_created [of srv s st created s1, OF assms(1)] split: prod.splits)

text \<open>
  Claim C10. When the creation of a saving succeeds with answer \<open>created\<close>: if the
  entry's current amount, read as \<^verbatim>\<open>Number(current || 0)\<close>, is greater than 0 and
  \<^verbatim>\<open>created?.id\<close> is truthy, the creation is followed by one update of the current amount
  under that id; otherwise the creation, from name and target only, is the only request.
  In particular an absent, zero or negative current amount gives no update.
\<close>

theorem C10_saving_update:
  assumes "srv (CreateSaving (s_name s) (number_or0 (s_target s))) (server st) = (Inr created, s1)"
  shows "(number_or0 (s_current s) > 0 \<and> truthy (opt_prop ''id'' created) \<longrightarrow>
            calls (snd (import_saving srv s st)) = calls st @
              [(CreateSaving (s_name s) (number_or0 (s_target s)), Inr created),
               (UpdateSaving (opt_prop ''id'' created) (number_or0 (s_current s)),
                fst (srv (UpdateSaving (opt_prop ''id'' created) (number_or0 (s_current s))) s1))]) \<and>
         (\<not> (number_or0 (s_current s) > 0 \<and> truthy (opt_prop ''id'' created)) \<longrightarrow>
            import_saving srv s st =
              (Inr (), st\<lparr>server := s1,
                        calls := calls st @
                          [(CreateSaving (s_name s) (number_or0 (s_target s)), Inr created)]\<rparr>)) \<and>
         (s_current s = None \<or> s_current s = Some 0 \<or> (\<exists>c. s_current s = Some c \<and> c < 0) \<longrightarrow>
            import_saving srv s st =
              (Inr (), st\<lparr>server := s1,
                        calls := calls st @
                          [(CreateSaving (s_name s) (number_or0 (s_target s)), Inr created)]\<rparr>))"
proof -
  have "s_current s = None \<or> s_current s = Some 0 \<or> (\<exists>c. s_current s = Some c \<and> c < 0)
        \<longrightarrow> \<not> number_or0 (s_current s) > 0"
    using number_or0_not_positive [of "s_current s"] by force
  then show ?thesis
    using import_saving_update [of srv s st created s1, OF assms]
      import_saving_no_update [of srv s st created s1, OF assms] by blast
qed




























text \<open>A saving with a current amount of 50 and one without a current amount.\<close>

theorem C10_saving_update_witness:
  "demo_server (CreateSaving (Some ''Car'') 5000) 0 = (Inr (JObj [(''id'', JNum 10)]), 1) \<and>
   number_or0 (Some 50) > 0 \<and> truthy (opt_prop ''id'' (JObj [(''id'', JNum 10)])) \<and>
   map fst (calls (snd (import_saving demo_server
       \<lparr>s_id = Some 1, s_name = Some ''Car'', s_target = Some 5000, s_current = Some 50\<rparr>
       (initial_page 0 :: (nat, BackupPayload) page))))
     = [CreateSaving (Some ''Car'') 5000, UpdateSaving (Some (JNum 10)) 50] \<and>
   demo_server (CreateSaving (Some ''Trip'') 900) 0 = (Inr (JObj [(''id'', JNum 10)]), 1) \<and>
   map fst (calls (snd (import_saving demo_server
       \<lparr>s_id = Some 2, s_name = Some ''Trip'', s_target = Some 900, s_current = None\<rparr>
       (initial_page 0 :: (nat, BackupPayload) page))))
     = [CreateSaving (Some ''Trip'') 900]"
proof -
  let ?car = "\<lparr>s_id = Some 1, s_name = Some ''Car'', s_target = Some 5000, s_current = Some 50\<rparr>"
  let ?trip = "\<lparr>s_id = Some 2, s_name = Some ''Trip'', s_target = Some 900, s_current = None\<rparr>"
  let ?pg = "initial_page 0 :: (nat, BackupPayload) page"
  have c: "demo_server (CreateSaving (s_name ?car) (number_or0 (s_target ?car))) (server ?pg)
             = (Inr (JObj [(''id'', JNum 10)]), 1)"
    and t: "demo_server (CreateSaving (s_name ?trip) (number_or0 (s_target ?trip))) (server ?pg)
             = (Inr (JObj [(''id'', JNum 10)]), 1)"
    by (simp_all add: number_or0_def initial_page_def)
  show ?thesis
    using C10_saving_update [of demo_server ?car ?pg "JObj [(''id'', JNum 10)]" 1, OF c]
      C10_saving_update [of demo_server ?trip ?pg "JObj [(''id'', JNum 10)]" 1, OF t]
    by (simp add: number_or0_def initial_page_def)
qed

end
